theory Spec2Isabelle
  imports Main "HOL-Library.Word" "HOL-Library.Multiset" "HOL-Library.Char_ord"
    "HOL-Library.List_Lexorder"
begin

section \<open>Identifiers: strconv.ParseInt(s, 10, 64)\<close>

text \<open>
  Every handler that takes an identifier reads it with
  \<^verbatim>\<open>strconv.ParseInt(c.Param("id"), 10, 64)\<close> and answers 400 when the error is
  not nil. The two library functions are transcribed for base 10 and bit size 64:
  a Go string is a sequence of bytes (\<open>string\<close>), \<^verbatim>\<open>uint64\<close> and \<^verbatim>\<open>int64\<close> are
  64-bit words, and both functions return a value together with an error, as in Go.
\<close>

type_synonym uint64 = "64 word"
type_synonym int64 = "64 word"

datatype NumError = ErrSyntax | ErrRange

definition byte :: "char \<Rightarrow> 8 word" where
  "byte c = of_char c"

definition lower :: "8 word \<Rightarrow> 8 word" where
  \<comment> \<open>\<^verbatim>\<open>c | ('x' - 'X')\<close>\<close>
  "lower c = or c 0x20"

definition maxUint64 :: uint64 where
  "maxUint64 = 0xFFFFFFFFFFFFFFFF"

definition cutoff10 :: uint64 where
  \<comment> \<open>\<^verbatim>\<open>maxUint64/10 + 1\<close>\<close>
  "cutoff10 = maxUint64 div 10 + 1"

definition maxVal :: uint64 where
  \<comment> \<open>\<^verbatim>\<open>uint64(1)<<uint(bitSize) - 1\<close> with bitSize = 64: the shift gives 0, minus 1 wraps\<close>
  "maxVal = 0 - 1"

text \<open>
  The \<^verbatim>\<open>switch\<close> that reads one byte as a digit (the case \<^verbatim>\<open>c == '_' && base0\<close>
  cannot fire: the base is 10, not 0), and the loop
  \<^verbatim>\<open>for _, c := range []byte(s)\<close> of ParseUint.
\<close>

definition digit_of :: "8 word \<Rightarrow> 8 word option" where
  "digit_of c =
     (if 0x30 \<le> c \<and> c \<le> 0x39 then Some (c - 0x30)
      else if 0x61 \<le> lower c \<and> lower c \<le> 0x7A then Some (lower c - 0x61 + 10)
      else None)"

fun ParseUint_loop :: "uint64 \<Rightarrow> string \<Rightarrow> uint64 \<times> NumError option" where
  "ParseUint_loop n [] = (n, None)"
| "ParseUint_loop n (c # cs) =
     (case digit_of (byte c) of
        None \<Rightarrow> (0, Some ErrSyntax)
      | Some d \<Rightarrow>
          if d \<ge> 10 then (0, Some ErrSyntax)
          else if n \<ge> cutoff10 then (maxVal, Some ErrRange)
          else
            (let n' = n * 10; n1 = n' + ucast d in
             if n1 < n' \<or> n1 > maxVal then (maxVal, Some ErrRange)
             else ParseUint_loop n1 cs))"

definition ParseUint :: "string \<Rightarrow> uint64 \<times> NumError option" where
  "ParseUint s = (if s = [] then (0, Some ErrSyntax) else ParseUint_loop 0 s)"

definition ParseInt :: "string \<Rightarrow> int64 \<times> NumError option" where
  "ParseInt s0 =
     (if s0 = [] then (0, Some ErrSyntax)
      else
        (let neg = (hd s0 = CHR ''-'');
             s = (if hd s0 = CHR ''+'' \<or> hd s0 = CHR ''-'' then tl s0 else s0);
             (un, err) = ParseUint s
         in if err \<noteq> None \<and> err \<noteq> Some ErrRange then (0, err)
            else
              (let cutoff = (push_bit 63 1 :: uint64) in
               if \<not> neg \<and> un \<ge> cutoff then (cutoff - 1, Some ErrRange)
               else if neg \<and> un > cutoff then (- cutoff, Some ErrRange)
               else (if neg then - un else un, None))))"

section \<open>The models\<close>

text \<open>
  The structs of package \<^verbatim>\<open>models\<close> that the handlers and the repository read and
  write, with the fields the sources and their tests name. A Go \<^verbatim>\<open>string\<close> is a
  \<open>string\<close>, a pointer field that may be nil is an \<open>option\<close>, a time is a number.
\<close>

type_synonym time = nat

record ContactMessage =
  m_ID :: int64
  m_Name :: string
  m_Email :: string
  m_Subject :: string
  m_Message :: string
  m_Status :: string
  m_LastError :: "string option"
  m_Attempts :: int
  m_SentAt :: "time option"
  m_CreatedAt :: time
  m_UpdatedAt :: time

record Recipient =
  r_ID :: int64
  r_Email :: string
  r_Name :: string
  r_IsActive :: bool
  r_CreatedAt :: time
  r_UpdatedAt :: time

record ContactMessageCreate =
  c_Name :: string
  c_Email :: string
  c_Subject :: string
  c_Message :: string
  c_Honeypot :: "string option"

record RecipientCreate =
  rc_Email :: string
  rc_Name :: string
  rc_IsActive :: "bool option"

record RecipientUpdate =
  ru_Email :: "string option"
  ru_Name :: "string option"
  ru_IsActive :: "bool option"

record ContactMessageEvent =
  MessageID :: int64

text \<open>
  Modelled from the spec: the status names of package \<^verbatim>\<open>models\<close>, which is not among
  the sources (the spec: status is an enumeration \<^verbatim>\<open>pending\<close>, \<^verbatim>\<open>sent\<close>, \<^verbatim>\<open>failed\<close>).
\<close>

definition MessageStatusPending :: string where
  "MessageStatusPending = ''pending''"

definition MessageStatusSent :: string where
  "MessageStatusSent = ''sent''"

definition MessageStatusFailed :: string where
  "MessageStatusFailed = ''failed''"

text \<open>
  Modelled from the spec: the method \<^verbatim>\<open>IsSpam\<close> of \<^verbatim>\<open>models.ContactMessageCreate\<close>,
  which is not among the sources (the spec: if the honeypot field is present and
  non-empty, treat as spam).
\<close>

definition IsSpam :: "ContactMessageCreate \<Rightarrow> bool" where
  "IsSpam req = (case c_Honeypot req of None \<Rightarrow> False | Some w \<Rightarrow> w \<noteq> [])"

section \<open>Errors, responses and effects\<close>

text \<open>
  A Go \<^verbatim>\<open>error\<close>: gorm's \<^verbatim>\<open>ErrRecordNotFound\<close>, any other error with its text, and an
  error wrapped by \<^verbatim>\<open>fmt.Errorf("...: %w", err)\<close>. \<open>Is_ErrRecordNotFound\<close> is
  \<^verbatim>\<open>errors.Is(err, gorm.ErrRecordNotFound)\<close>, which looks through the wrapping.
\<close>

datatype error = ErrRecordNotFound | New string | Errorf string error

fun Is_ErrRecordNotFound :: "error \<Rightarrow> bool" where
  "Is_ErrRecordNotFound ErrRecordNotFound = True"
| "Is_ErrRecordNotFound (New _) = False"
| "Is_ErrRecordNotFound (Errorf _ e) = Is_ErrRecordNotFound e"

datatype payload =
    H_message string
  | H_error string
  | JSON_ContactMessage ContactMessage
  | JSON_ContactMessages "ContactMessage list"
  | JSON_Recipient Recipient
  | JSON_Recipients "Recipient list"
  | No_body

datatype response = Response (status_code: nat) (payload: payload) (location: "int64 option")

text \<open>
  What a handler does besides answering: the calls it makes to the repository and to the
  publisher, in order, and the errors it logs.
\<close>

datatype effect =
    Repo_CreateContactMessage ContactMessage
  | Repo_GetContactMessages
  | Repo_GetContactMessageByID int64
  | Repo_GetAllRecipients
  | Repo_GetRecipientByID int64
  | Repo_CreateRecipient Recipient
  | Repo_UpdateRecipient Recipient
  | Repo_DeleteRecipient int64
  | Publisher_Publish ContactMessageEvent
  | Logged error

fun is_repository_call :: "effect \<Rightarrow> bool" where
  "is_repository_call (Publisher_Publish _) = False"
| "is_repository_call (Logged _) = False"
| "is_repository_call _ = True"

fun is_create_call :: "effect \<Rightarrow> bool" where
  "is_create_call (Repo_CreateContactMessage _) = True"
| "is_create_call _ = False"


definition StatusOK :: nat where "StatusOK = 200"
definition StatusCreated :: nat where "StatusCreated = 201"
definition StatusNoContent :: nat where "StatusNoContent = 204"
definition StatusBadRequest :: nat where "StatusBadRequest = 400"
definition StatusNotFound :: nat where "StatusNotFound = 404"
definition StatusInternalServerError :: nat where "StatusInternalServerError = 500"

definition JSON :: "nat \<Rightarrow> payload \<Rightarrow> response" where
  "JSON code obj = Response code obj None"

text \<open>
  Modelled from the spec: the helpers of package \<^verbatim>\<open>commonhandlers\<close>, which is not
  among the sources. \<^verbatim>\<open>RespondError\<close> answers with the status and the text;
  \<^verbatim>\<open>LogAndRespondError\<close> logs the cause and answers with the generic text (the spec:
  original cause logged but not exposed verbatim to the caller);
  \<^verbatim>\<open>HandleRepositoryError\<close> answers 404 when the repository reports absence and a
  logged 500 on any other failure.
\<close>

definition RespondError :: "nat \<Rightarrow> string \<Rightarrow> response" where
  "RespondError code msg = JSON code (H_error msg)"

definition LogAndRespondError :: "nat \<Rightarrow> error \<Rightarrow> string \<Rightarrow> response \<times> effect list" where
  "LogAndRespondError code err msg = (RespondError code msg, [Logged err])"

definition HandleRepositoryError :: "error \<Rightarrow> string \<Rightarrow> string \<Rightarrow> response \<times> effect list" where
  "HandleRepositoryError err notFoundMsg internalMsg =
     (if Is_ErrRecordNotFound err then (RespondError StatusNotFound notFoundMsg, [])
      else LogAndRespondError StatusInternalServerError err internalMsg)"

text \<open>The outcomes the spec names.\<close>

definition InvalidIdentifier :: response where
  "InvalidIdentifier = RespondError StatusBadRequest ''Invalid ID format''"

definition ValidationError :: "string \<Rightarrow> response" where
  "ValidationError msg = RespondError StatusBadRequest msg"

definition PersistenceError :: "string \<Rightarrow> response" where
  "PersistenceError msg = RespondError StatusInternalServerError msg"

definition NotFoundError :: "string \<Rightarrow> response" where
  "NotFoundError msg = RespondError StatusNotFound msg"

definition SuccessAcknowledgment :: response where
  "SuccessAcknowledgment = JSON StatusCreated (H_message ''Thank you for your message'')"

section \<open>The repository and publisher interfaces\<close>

text \<open>
  \<^verbatim>\<open>repository.Repository\<close> and \<^verbatim>\<open>queue.Publisher\<close> are interfaces: a handler works
  with any implementation. An implementation is a record of functions over a state \<open>'s\<close>
  of its own (the database, the queue, the captured variables of a test double). A
  method that takes a pointer to a record returns the record as it leaves it: the
  handlers read \<^verbatim>\<open>message.ID\<close>, \<^verbatim>\<open>recipient.ID\<close> and the record itself after the call.
  A method that returns \<^verbatim>\<open>(*T, error)\<close> gives the error or the record, as the
  repository of this service does.
\<close>

record 's Repository =
  repo_CreateContactMessage :: "ContactMessage \<Rightarrow> 's \<Rightarrow> (error option \<times> ContactMessage) \<times> 's"
  repo_GetContactMessages :: "'s \<Rightarrow> (error + ContactMessage list) \<times> 's"
  repo_GetContactMessageByID :: "int64 \<Rightarrow> 's \<Rightarrow> (error + ContactMessage) \<times> 's"
  repo_GetAllRecipients :: "'s \<Rightarrow> (error + Recipient list) \<times> 's"
  repo_GetRecipientByID :: "int64 \<Rightarrow> 's \<Rightarrow> (error + Recipient) \<times> 's"
  repo_CreateRecipient :: "Recipient \<Rightarrow> 's \<Rightarrow> (error option \<times> Recipient) \<times> 's"
  repo_UpdateRecipient :: "Recipient \<Rightarrow> 's \<Rightarrow> (error option \<times> Recipient) \<times> 's"
  repo_DeleteRecipient :: "int64 \<Rightarrow> 's \<Rightarrow> error option \<times> 's"

record 's Handler =
  repo :: "'s Repository"
  publisher :: "ContactMessageEvent \<Rightarrow> 's \<Rightarrow> error option \<times> 's"

text \<open>
  A request, as the handlers read it: the path parameter \<^verbatim>\<open>id\<close> and the body. What
  \<^verbatim>\<open>c.ShouldBindJSON(&req)\<close> makes of a body (it decodes the JSON and checks the
  binding tags of the target struct) is gin's and the models package's work, not this
  repository's: a handler takes it as the function \<open>bind\<close>, which gives the error text
  or the bound struct.
\<close>

type_synonym ('b, 'a) ShouldBindJSON = "'b \<Rightarrow> string + 'a"

type_synonym 's result = "response \<times> effect list \<times> 's"

definition after :: "effect list \<Rightarrow> 's \<Rightarrow> response \<times> effect list \<Rightarrow> 's result" where
  \<comment> \<open>the answer of an error helper, after the calls already made\<close>
  "after calls s r = (fst r, calls @ snd r, s)"

section \<open>The handlers\<close>

subsection \<open>Contact messages (handlers/contact\_message.go)\<close>

text \<open>
  The struct literal \<^verbatim>\<open>&models.ContactMessage{Name: req.Name, ..., Status:
  models.MessageStatusPending}\<close>: the fields it leaves out have Go's zero values.
\<close>

definition new_ContactMessage :: "ContactMessageCreate \<Rightarrow> ContactMessage" where
  "new_ContactMessage req =
     \<lparr>m_ID = 0, m_Name = c_Name req, m_Email = c_Email req, m_Subject = c_Subject req,
      m_Message = c_Message req, m_Status = MessageStatusPending, m_LastError = None,
      m_Attempts = 0, m_SentAt = None, m_CreatedAt = 0, m_UpdatedAt = 0\<rparr>"

definition Handler_CreateContactMessage ::
    "('b, ContactMessageCreate) ShouldBindJSON \<Rightarrow> 's Handler \<Rightarrow> 'b \<Rightarrow> 's \<Rightarrow> 's result" where
  "Handler_CreateContactMessage bind h body s =
     (case bind body of
        Inl err \<Rightarrow> (RespondError StatusBadRequest err, [], s)
      | Inr req \<Rightarrow>
          if IsSpam req then
            (JSON StatusCreated (H_message ''Thank you for your message''), [], s)
          else
            (let message = new_ContactMessage req
             in case repo_CreateContactMessage (repo h) message s of
                  ((Some err, _), s1) \<Rightarrow>
                    after [Repo_CreateContactMessage message] s1
                      (LogAndRespondError StatusInternalServerError err ''Failed to submit message'')
                | ((None, message'), s1) \<Rightarrow>
                    (let event = \<lparr>MessageID = m_ID message'\<rparr>
                     in case publisher h event s1 of
                          (Some err, s2) \<Rightarrow>
                            (JSON StatusCreated (H_message ''Thank you for your message''),
                             [Repo_CreateContactMessage message, Publisher_Publish event, Logged err], s2)
                        | (None, s2) \<Rightarrow>
                            (JSON StatusCreated (H_message ''Thank you for your message''),
                             [Repo_CreateContactMessage message, Publisher_Publish event], s2))))"

definition Handler_GetContactMessages :: "'s Handler \<Rightarrow> 's \<Rightarrow> 's result" where
  "Handler_GetContactMessages h s =
     (case repo_GetContactMessages (repo h) s of
        (Inl err, s1) \<Rightarrow>
          after [Repo_GetContactMessages] s1
            (LogAndRespondError StatusInternalServerError err ''Failed to retrieve messages'')
      | (Inr messages, s1) \<Rightarrow>
          (JSON StatusOK (JSON_ContactMessages messages), [Repo_GetContactMessages], s1))"

definition Handler_GetContactMessage :: "'s Handler \<Rightarrow> string \<Rightarrow> 's \<Rightarrow> 's result" where
  "Handler_GetContactMessage h param_id s =
     (case ParseInt param_id of
        (_, Some err) \<Rightarrow> (RespondError StatusBadRequest ''Invalid ID format'', [], s)
      | (id64, None) \<Rightarrow>
          (case repo_GetContactMessageByID (repo h) id64 s of
             (Inl err, s1) \<Rightarrow>
               after [Repo_GetContactMessageByID id64] s1
                 (HandleRepositoryError err ''Message not found'' ''Failed to retrieve message'')
           | (Inr message, s1) \<Rightarrow>
               (JSON StatusOK (JSON_ContactMessage message), [Repo_GetContactMessageByID id64], s1)))"

subsection \<open>Recipients (handlers/recipient.go)\<close>

definition Handler_GetRecipients :: "'s Handler \<Rightarrow> 's \<Rightarrow> 's result" where
  "Handler_GetRecipients h s =
     (case repo_GetAllRecipients (repo h) s of
        (Inl err, s1) \<Rightarrow>
          after [Repo_GetAllRecipients] s1
            (LogAndRespondError StatusInternalServerError err ''Failed to retrieve recipients'')
      | (Inr recipients, s1) \<Rightarrow>
          (JSON StatusOK (JSON_Recipients recipients), [Repo_GetAllRecipients], s1))"

definition Handler_GetRecipient :: "'s Handler \<Rightarrow> string \<Rightarrow> 's \<Rightarrow> 's result" where
  "Handler_GetRecipient h param_id s =
     (case ParseInt param_id of
        (_, Some err) \<Rightarrow> (RespondError StatusBadRequest ''Invalid ID format'', [], s)
      | (id64, None) \<Rightarrow>
          (case repo_GetRecipientByID (repo h) id64 s of
             (Inl err, s1) \<Rightarrow>
               after [Repo_GetRecipientByID id64] s1
                 (HandleRepositoryError err ''Recipient not found'' ''Failed to retrieve recipient'')
           | (Inr recipient, s1) \<Rightarrow>
               (JSON StatusOK (JSON_Recipient recipient), [Repo_GetRecipientByID id64], s1)))"

text \<open>
  \<^verbatim>\<open>&models.Recipient{Email: req.Email, Name: req.Name, IsActive: true}\<close>, then
  \<^verbatim>\<open>if req.IsActive != nil { recipient.IsActive = *req.IsActive }\<close>.
\<close>

definition new_Recipient :: "RecipientCreate \<Rightarrow> Recipient" where
  "new_Recipient req =
     (let recipient = \<lparr>r_ID = 0, r_Email = rc_Email req, r_Name = rc_Name req,
            r_IsActive = True, r_CreatedAt = 0, r_UpdatedAt = 0\<rparr>
      in case rc_IsActive req of
           Some a \<Rightarrow> recipient\<lparr>r_IsActive := a\<rparr>
         | None \<Rightarrow> recipient)"

definition Handler_CreateRecipient ::
    "('b, RecipientCreate) ShouldBindJSON \<Rightarrow> 's Handler \<Rightarrow> 'b \<Rightarrow> 's \<Rightarrow> 's result" where
  "Handler_CreateRecipient bind h body s =
     (case bind body of
        Inl err \<Rightarrow> (RespondError StatusBadRequest err, [], s)
      | Inr req \<Rightarrow>
          (let recipient = new_Recipient req
           in case repo_CreateRecipient (repo h) recipient s of
                ((Some err, _), s1) \<Rightarrow>
                  after [Repo_CreateRecipient recipient] s1
                    (LogAndRespondError StatusInternalServerError err ''Failed to create recipient'')
              | ((None, recipient'), s1) \<Rightarrow>
                  (Response StatusCreated (JSON_Recipient recipient') (Some (r_ID recipient')),
                   [Repo_CreateRecipient recipient], s1)))"

text \<open>The three assignments under \<^verbatim>\<open>// Apply updates\<close> of UpdateRecipient.\<close>

definition apply_updates :: "Recipient \<Rightarrow> RecipientUpdate \<Rightarrow> Recipient" where
  "apply_updates existing req =
     (let e1 = (case ru_Email req of Some v \<Rightarrow> existing\<lparr>r_Email := v\<rparr> | None \<Rightarrow> existing);
          e2 = (case ru_Name req of Some v \<Rightarrow> e1\<lparr>r_Name := v\<rparr> | None \<Rightarrow> e1);
          e3 = (case ru_IsActive req of Some v \<Rightarrow> e2\<lparr>r_IsActive := v\<rparr> | None \<Rightarrow> e2)
      in e3)"

definition Handler_UpdateRecipient ::
    "('b, RecipientUpdate) ShouldBindJSON \<Rightarrow> 's Handler \<Rightarrow> string \<Rightarrow> 'b \<Rightarrow> 's \<Rightarrow> 's result" where
  "Handler_UpdateRecipient bind h param_id body s =
     (case ParseInt param_id of
        (_, Some err) \<Rightarrow> (RespondError StatusBadRequest ''Invalid ID format'', [], s)
      | (id64, None) \<Rightarrow>
          (case repo_GetRecipientByID (repo h) id64 s of
             (Inl err, s1) \<Rightarrow>
               after [Repo_GetRecipientByID id64] s1
                 (HandleRepositoryError err ''Recipient not found'' ''Failed to retrieve recipient'')
           | (Inr existing, s1) \<Rightarrow>
               (case bind body of
                  Inl err \<Rightarrow> (RespondError StatusBadRequest err, [Repo_GetRecipientByID id64], s1)
                | Inr req \<Rightarrow>
                    (let merged = apply_updates existing req
                     in case repo_UpdateRecipient (repo h) merged s1 of
                          ((Some err, _), s2) \<Rightarrow>
                            after [Repo_GetRecipientByID id64, Repo_UpdateRecipient merged] s2
                              (LogAndRespondError StatusInternalServerError err
                                 ''Failed to update recipient'')
                        | ((None, existing'), s2) \<Rightarrow>
                            (JSON StatusOK (JSON_Recipient existing'),
                             [Repo_GetRecipientByID id64, Repo_UpdateRecipient merged], s2)))))"

definition Handler_DeleteRecipient :: "'s Handler \<Rightarrow> string \<Rightarrow> 's \<Rightarrow> 's result" where
  "Handler_DeleteRecipient h param_id s =
     (case ParseInt param_id of
        (_, Some err) \<Rightarrow> (RespondError StatusBadRequest ''Invalid ID format'', [], s)
      | (id64, None) \<Rightarrow>
          (case repo_DeleteRecipient (repo h) id64 s of
             (Some err, s1) \<Rightarrow>
               after [Repo_DeleteRecipient id64] s1
                 (HandleRepositoryError err ''Recipient not found'' ''Failed to delete recipient'')
           | (None, s1) \<Rightarrow>
               (Response StatusNoContent No_body None, [Repo_DeleteRecipient id64], s1)))"

section \<open>Validation of request bodies\<close>

text \<open>
  Modelled from the spec: the binding tags of \<^verbatim>\<open>models.ContactMessageCreate\<close>,
  \<^verbatim>\<open>models.RecipientCreate\<close> and \<^verbatim>\<open>models.RecipientUpdate\<close>, which are not among the
  sources. The spec: name required, 1 to 255 characters; email required, a syntactically
  valid address; subject 1 to 500 characters; message body 1 to 10000 characters;
  isActive optional. A field of an update is checked when it is present (an empty
  string is present). What a syntactically valid address is, the spec leaves to the
  validator: it is the parameter \<open>valid_email\<close>. A length is a number of characters:
  for these checks a \<open>string\<close> is the list of the characters of the field. A body is
  the struct the JSON decodes to, or nothing when it does not decode.
\<close>

definition valid_ContactMessageCreate :: "(string \<Rightarrow> bool) \<Rightarrow> ContactMessageCreate \<Rightarrow> bool" where
  "valid_ContactMessageCreate valid_email req =
     (1 \<le> length (c_Name req) \<and> length (c_Name req) \<le> 255 \<and>
      valid_email (c_Email req) \<and>
      1 \<le> length (c_Subject req) \<and> length (c_Subject req) \<le> 500 \<and>
      1 \<le> length (c_Message req) \<and> length (c_Message req) \<le> 10000)"

definition valid_RecipientCreate :: "(string \<Rightarrow> bool) \<Rightarrow> RecipientCreate \<Rightarrow> bool" where
  "valid_RecipientCreate valid_email req =
     (valid_email (rc_Email req) \<and> 1 \<le> length (rc_Name req) \<and> length (rc_Name req) \<le> 255)"

definition valid_RecipientUpdate :: "(string \<Rightarrow> bool) \<Rightarrow> RecipientUpdate \<Rightarrow> bool" where
  "valid_RecipientUpdate valid_email req =
     ((case ru_Email req of None \<Rightarrow> True | Some e \<Rightarrow> valid_email e) \<and>
      (case ru_Name req of None \<Rightarrow> True | Some n \<Rightarrow> 1 \<le> length n \<and> length n \<le> 255))"

definition ShouldBindJSON_with :: "('a \<Rightarrow> bool) \<Rightarrow> ('a option, 'a) ShouldBindJSON" where
  "ShouldBindJSON_with valid body =
     (case body of
        None \<Rightarrow> Inl ''invalid JSON''
      | Some req \<Rightarrow> if valid req then Inr req else Inl ''validation failed'')"

section \<open>Test doubles\<close>

text \<open>
  The doubles of \<^verbatim>\<open>mocks_test.go\<close> and of the handler tests: a repository and a
  publisher that keep what they were given, as the tests' captured variables do, and the
  failing variants the tests use. The record with identity 1 exists; no other does.
\<close>

record captured =
  createdMessage :: "ContactMessage option"
  updatedRecipient :: "Recipient option"
  published :: "ContactMessageEvent option"

definition nothing_captured :: captured where
  "nothing_captured = \<lparr>createdMessage = None, updatedRecipient = None, published = None\<rparr>"

definition createTestContactMessage :: ContactMessage where
  "createTestContactMessage =
     \<lparr>m_ID = 1, m_Name = ''John Doe'', m_Email = ''john@example.com'',
      m_Subject = ''Test Subject'', m_Message = ''Test message content'',
      m_Status = MessageStatusPending, m_LastError = None, m_Attempts = 0,
      m_SentAt = None, m_CreatedAt = 1700000000, m_UpdatedAt = 1700000000\<rparr>"

definition createTestRecipient :: Recipient where
  "createTestRecipient =
     \<lparr>r_ID = 1, r_Email = ''admin@example.com'', r_Name = ''Admin User'', r_IsActive = True,
      r_CreatedAt = 1700000000, r_UpdatedAt = 1700000000\<rparr>"

definition mockRepository :: "captured Repository" where
  "mockRepository =
     \<lparr>repo_CreateContactMessage =
        (\<lambda>message s. ((None, message\<lparr>m_ID := 1\<rparr>),
                       s\<lparr>createdMessage := Some (message\<lparr>m_ID := 1\<rparr>)\<rparr>)),
      repo_GetContactMessages = (\<lambda>s. (Inr [createTestContactMessage], s)),
      repo_GetContactMessageByID =
        (\<lambda>i s. (if i = 1 then Inr createTestContactMessage else Inl ErrRecordNotFound, s)),
      repo_GetAllRecipients = (\<lambda>s. (Inr [createTestRecipient], s)),
      repo_GetRecipientByID =
        (\<lambda>i s. (if i = 1 then Inr createTestRecipient else Inl ErrRecordNotFound, s)),
      repo_CreateRecipient = (\<lambda>recipient s. ((None, recipient\<lparr>r_ID := 1\<rparr>), s)),
      repo_UpdateRecipient =
        (\<lambda>recipient s. ((None, recipient), s\<lparr>updatedRecipient := Some recipient\<rparr>)),
      repo_DeleteRecipient = (\<lambda>i s. (if i = 1 then None else Some ErrRecordNotFound, s))\<rparr>"

definition mockPublisher :: "ContactMessageEvent \<Rightarrow> captured \<Rightarrow> error option \<times> captured" where
  "mockPublisher event s = (None, s\<lparr>published := Some event\<rparr>)"

definition mockHandler :: "captured Handler" where
  "mockHandler = \<lparr>repo = mockRepository, publisher = mockPublisher\<rparr>"

definition mockHandler_repository_error :: "captured Handler" where
  \<comment> \<open>the writes fail with \<^verbatim>\<open>errors.New("database error")\<close>\<close>
  "mockHandler_repository_error =
     \<lparr>repo = mockRepository
        \<lparr>repo_CreateContactMessage := (\<lambda>message s. ((Some (New ''database error''), message), s)),
         repo_UpdateRecipient := (\<lambda>recipient s. ((Some (New ''database error''), recipient), s))\<rparr>,
      publisher = mockPublisher\<rparr>"

definition mockHandler_publish_error :: "captured Handler" where
  \<comment> \<open>the publisher fails with \<^verbatim>\<open>errors.New("mq down")\<close>\<close>
  "mockHandler_publish_error =
     \<lparr>repo = mockRepository, publisher = (\<lambda>event s. (Some (New ''mq down''), s))\<rparr>"

definition contains_at :: "string \<Rightarrow> bool" where
  \<comment> \<open>a stand-in for the validator's address syntax at the concrete bodies below\<close>
  "contains_at e = (takeWhile (\<lambda>c. c \<noteq> CHR ''@'') e \<noteq> [] \<and>
                    1 < length (dropWhile (\<lambda>c. c \<noteq> CHR ''@'') e))"

definition body_john :: ContactMessageCreate where
  "body_john = \<lparr>c_Name = ''John Doe'', c_Email = ''john@example.com'', c_Subject = ''Test'',
                c_Message = ''Hello world'', c_Honeypot = None\<rparr>"



definition body_only_name :: RecipientUpdate where
  "body_only_name = \<lparr>ru_Email = None, ru_Name = Some ''Only Name Updated'', ru_IsActive = None\<rparr>"

definition body_bad_email :: RecipientUpdate where
  "body_bad_email = \<lparr>ru_Email = Some ''not-an-email'', ru_Name = None, ru_IsActive = None\<rparr>"

definition body_empty :: RecipientUpdate where
  "body_empty = \<lparr>ru_Email = None, ru_Name = None, ru_IsActive = None\<rparr>"

section \<open>The repository over gorm (internal/repository)\<close>

text \<open>
  The implementation of the repository builds gorm statements and runs them on the
  database. The database is a state: the rows of the two tables, the clock gorm reads
  with \<^verbatim>\<open>NowFunc\<close>, the collation that orders text columns (\<open>collate db a b\<close>: \<open>a\<close>
  sorts no later than \<open>b\<close>) and, while the connection is down, the error every statement
  ends with.
\<close>

record DB =
  contact_messages :: "ContactMessage list"
  recipients :: "Recipient list"
  NowFunc :: time
  collate :: "string \<Rightarrow> string \<Rightarrow> bool"
  db_Error :: "error option"

text \<open>
  \<^verbatim>\<open>ORDER BY\<close>: the rows, sorted on a text column under the collation, ascending or
  descending; rows that compare equal keep their order.
\<close>

datatype direction = ASC | DESC

fun insert_row :: "('a \<Rightarrow> 'a \<Rightarrow> bool) \<Rightarrow> 'a \<Rightarrow> 'a list \<Rightarrow> 'a list" where
  "insert_row le x [] = [x]"
| "insert_row le x (y # ys) = (if le x y then x # y # ys else y # insert_row le x ys)"

fun order_rows :: "('a \<Rightarrow> 'a \<Rightarrow> bool) \<Rightarrow> 'a list \<Rightarrow> 'a list" where
  "order_rows le [] = []"
| "order_rows le (x # xs) = insert_row le x (order_rows le xs)"

definition Order :: "('row \<Rightarrow> string) \<Rightarrow> direction \<Rightarrow> DB \<Rightarrow> 'row list \<Rightarrow> 'row list" where
  "Order column dir db rows =
     order_rows (\<lambda>a b. case dir of
                          ASC \<Rightarrow> collate db (column a) (column b)
                        | DESC \<Rightarrow> collate db (column b) (column a)) rows"

text \<open>
  GetAllRecipients: \<^verbatim>\<open>r.db.WithContext(ctx).Order("name ASC").Find(&recipients)\<close>, and
  GetActiveRecipients, the same with \<^verbatim>\<open>Where("is_active = ?", true)\<close>. The error of the
  statement is wrapped with \<^verbatim>\<open>fmt.Errorf\<close>.
\<close>

definition repository_GetAllRecipients :: "DB \<Rightarrow> error + Recipient list" where
  "repository_GetAllRecipients db =
     (case db_Error db of
        Some err \<Rightarrow> Inl (Errorf ''failed to get all recipients'' err)
      | None \<Rightarrow> Inr (Order r_Name ASC db (recipients db)))"

definition repository_GetActiveRecipients :: "DB \<Rightarrow> error + Recipient list" where
  "repository_GetActiveRecipients db =
     (case db_Error db of
        Some err \<Rightarrow> Inl (Errorf ''failed to get active recipients'' err)
      | None \<Rightarrow> Inr (Order r_Name ASC db (filter r_IsActive (recipients db))))"

text \<open>
  UpdateContactMessageStatus. The map \<^verbatim>\<open>updates\<close> takes a column to a string, to a
  time or to the SQL expression of \<^verbatim>\<open>gorm.Expr\<close>.
\<close>

datatype column_value = String_value string | Time_value time | Expr string

definition status_updates :: "DB \<Rightarrow> string \<Rightarrow> string option \<Rightarrow> (string \<rightharpoonup> column_value)" where
  "status_updates db status lastError =
     (let updates = [''status'' \<mapsto> String_value status];
          updates = (case lastError of
                       Some e \<Rightarrow> updates(''last_error'' \<mapsto> String_value e)
                     | None \<Rightarrow> updates);
          updates = (if status = MessageStatusSent
                     then updates(''sent_at'' \<mapsto> Time_value (NowFunc db)) else updates);
          updates = (if status = MessageStatusFailed
                     then updates(''attempts'' \<mapsto> Expr ''attempts + 1'') else updates)
      in updates)"

text \<open>
  \<^verbatim>\<open>Model(&models.ContactMessage{}).Where("id = ?", id).Updates(updates)\<close>: every row
  with the identifier gets the columns of the map assigned (the expression
  \<^verbatim>\<open>attempts + 1\<close> is evaluated on the row) and, as gorm does on an update of a model
  with that field, \<^verbatim>\<open>updated_at\<close> set to now. The result carries the number of rows
  affected and the error of the statement.
\<close>

definition assign_columns :: "time \<Rightarrow> (string \<rightharpoonup> column_value) \<Rightarrow> ContactMessage \<Rightarrow> ContactMessage" where
  "assign_columns now updates row =
     (let r1 = (case updates ''status'' of Some (String_value v) \<Rightarrow> row\<lparr>m_Status := v\<rparr> | _ \<Rightarrow> row);
          r2 = (case updates ''last_error'' of
                  Some (String_value v) \<Rightarrow> r1\<lparr>m_LastError := Some v\<rparr> | _ \<Rightarrow> r1);
          r3 = (case updates ''sent_at'' of Some (Time_value v) \<Rightarrow> r2\<lparr>m_SentAt := Some v\<rparr> | _ \<Rightarrow> r2);
          r4 = (case updates ''attempts'' of
                  Some (Expr e) \<Rightarrow>
                    if e = ''attempts + 1'' then r3\<lparr>m_Attempts := m_Attempts row + 1\<rparr> else r3
                | _ \<Rightarrow> r3)
      in r4\<lparr>m_UpdatedAt := now\<rparr>)"

record Result =
  RowsAffected :: nat
  Error :: "error option"

definition Where_id_Updates :: "int64 \<Rightarrow> (string \<rightharpoonup> column_value) \<Rightarrow> DB \<Rightarrow> Result \<times> DB" where
  "Where_id_Updates id64 updates db =
     (case db_Error db of
        Some err \<Rightarrow> (\<lparr>RowsAffected = 0, Error = Some err\<rparr>, db)
      | None \<Rightarrow>
          (\<lparr>RowsAffected = length (filter (\<lambda>row. m_ID row = id64) (contact_messages db)),
            Error = None\<rparr>,
           db\<lparr>contact_messages :=
                map (\<lambda>row. if m_ID row = id64 then assign_columns (NowFunc db) updates row else row)
                  (contact_messages db)\<rparr>))"

text \<open>
  Modelled from the spec: \<^verbatim>\<open>commonrepo.CheckRowsAffected\<close>, which is not among the
  sources (the spec: the error signals not-found when zero rows are affected).
\<close>

definition checkRowsAffected :: "Result \<Rightarrow> error option" where
  "checkRowsAffected result =
     (case Error result of
        Some err \<Rightarrow> Some err
      | None \<Rightarrow> if RowsAffected result = 0 then Some ErrRecordNotFound else None)"

definition repository_UpdateContactMessageStatus ::
    "int64 \<Rightarrow> string \<Rightarrow> string option \<Rightarrow> DB \<Rightarrow> error option \<times> DB" where
  "repository_UpdateContactMessageStatus id64 status lastError db =
     (let updates = status_updates db status lastError;
          (result, db') = Where_id_Updates id64 updates db
      in case checkRowsAffected result of
           Some err \<Rightarrow> (Some (Errorf ''failed to update contact message status'' err), db')
         | None \<Rightarrow> (None, db'))"

section \<open>Decimal numerals\<close>

text \<open>
  What the identifiers that \<open>ParseInt\<close> accepts are, said without the loop: an optional
  sign, then one decimal digit or more, denoting a value from \<open>- 2 ^ 63\<close> to
  \<open>2 ^ 63 - 1\<close>. \<open>int64_decimal\<close> gives the value denoted, or nothing.
\<close>

definition is_digit :: "char \<Rightarrow> bool" where
  "is_digit c = (48 \<le> (of_char c :: nat) \<and> (of_char c :: nat) \<le> 57)"

definition digit_val :: "char \<Rightarrow> nat" where
  "digit_val c = of_char c - 48"

definition dec :: "nat \<Rightarrow> string \<Rightarrow> nat" where
  "dec v cs = foldl (\<lambda>v c. 10 * v + digit_val c) v cs"

definition decimal_value :: "string \<Rightarrow> nat" where
  "decimal_value cs = dec 0 cs"

definition is_decimal :: "string \<Rightarrow> bool" where
  "is_decimal cs = (cs \<noteq> [] \<and> list_all is_digit cs)"

definition int64_decimal :: "string \<Rightarrow> int option" where
  "int64_decimal s =
     (case s of
        [] \<Rightarrow> None
      | c # cs \<Rightarrow>
          (let ds = (if c = CHR ''+'' \<or> c = CHR ''-'' then cs else s);
               v = (if c = CHR ''-'' then - int (decimal_value ds) else int (decimal_value ds))
           in if is_decimal ds \<and> - (2 ^ 63) \<le> v \<and> v < 2 ^ 63 then Some v else None))"

text \<open>The calls that write: create, update and delete.\<close>

fun is_write_call :: "effect \<Rightarrow> bool" where
  "is_write_call (Repo_CreateContactMessage _) = True"
| "is_write_call (Repo_CreateRecipient _) = True"
| "is_write_call (Repo_UpdateRecipient _) = True"
| "is_write_call (Repo_DeleteRecipient _) = True"
| "is_write_call _ = False"

definition body_recipient_bad_email :: RecipientCreate where
  "body_recipient_bad_email = \<lparr>rc_Email = ''not-an-email'', rc_Name = ''Test'', rc_IsActive = None\<rparr>"

definition body_new_recipient :: RecipientCreate where
  "body_new_recipient = \<lparr>rc_Email = ''new@example.com'', rc_Name = ''New Recipient'', rc_IsActive = None\<rparr>"

text \<open>
  A database for the examples: record 2 is stored before record 1, and text is collated
  in the order of its bytes. The double beside it lists what the repository finds there.
\<close>

definition test_db :: DB where
  "test_db =
     \<lparr>contact_messages = [createTestContactMessage],
      recipients =
        [\<lparr>r_ID = 2, r_Email = ''support@example.com'', r_Name = ''Support Team'', r_IsActive = True,
          r_CreatedAt = 1700000000, r_UpdatedAt = 1700000000\<rparr>,
         createTestRecipient],
      NowFunc = 1700000500,
      collate = (\<le>),
      db_Error = None\<rparr>"

definition mockHandler_over_db :: "captured Handler" where
  "mockHandler_over_db =
     mockHandler\<lparr>repo := mockRepository
       \<lparr>repo_GetAllRecipients := (\<lambda>s. (repository_GetAllRecipients test_db, s))\<rparr>\<rparr>"

text \<open>
  What it is for the handler to accept a submission (it binds, and the answer is not
  400) and to reject it (the answer is the validation error, and nothing else happens),
  with the validation modelled above.
\<close>

definition accepts :: "(string \<Rightarrow> bool) \<Rightarrow> 's Handler \<Rightarrow> 's \<Rightarrow> ContactMessageCreate \<Rightarrow> bool" where
  "accepts valid_email h s req =
     (ShouldBindJSON_with (valid_ContactMessageCreate valid_email) (Some req) = Inr req \<and>
      status_code (fst (Handler_CreateContactMessage
         (ShouldBindJSON_with (valid_ContactMessageCreate valid_email)) h (Some req) s))
        \<noteq> StatusBadRequest)"

definition rejects :: "(string \<Rightarrow> bool) \<Rightarrow> 's Handler \<Rightarrow> 's \<Rightarrow> ContactMessageCreate \<Rightarrow> bool" where
  "rejects valid_email h s req =
     (Handler_CreateContactMessage
         (ShouldBindJSON_with (valid_ContactMessageCreate valid_email)) h (Some req) s
        = (ValidationError ''validation failed'', [], s))"

section \<open>Properties\<close>

lemmas response_defs = RespondError_def JSON_def LogAndRespondError_def HandleRepositoryError_def
  InvalidIdentifier_def ValidationError_def PersistenceError_def NotFoundError_def
  SuccessAcknowledgment_def after_def StatusOK_def StatusCreated_def StatusNoContent_def
  StatusBadRequest_def StatusNotFound_def StatusInternalServerError_def

lemmas mock_defs = mockHandler_def mockRepository_def mockPublisher_def
  mockHandler_repository_error_def mockHandler_publish_error_def nothing_captured_def

lemmas bind_defs = ShouldBindJSON_with_def valid_ContactMessageCreate_def
  valid_RecipientCreate_def valid_RecipientUpdate_def contains_at_def

subsection \<open>What ParseInt accepts\<close>

lemma of_char_lt_256: "(of_char c :: nat) < 256"
  by (cases c) simp

lemma unat_byte: "unat (byte c) = of_char c"
proof -
  have "byte c = word_of_nat (of_char c)"
    by (simp add: byte_def of_nat_of_char)
  then show ?thesis
    using of_char_lt_256 [of c] by (simp add: unat_of_nat)
qed

lemma digit_word:
  "(0x30::8 word) \<le> b \<Longrightarrow> b \<le> 0x39 \<Longrightarrow> b - 0x30 < 10 \<and> unat (b - 0x30) = unat b - 48"
  by unat_arith

lemma letter_word: "(0x61::8 word) \<le> x \<Longrightarrow> x \<le> 0x7A \<Longrightarrow> x - 0x61 + 10 \<ge> 10"
  by unat_arith

lemma digit_of_digit:
  assumes "is_digit c"
  shows "\<exists>d. digit_of (byte c) = Some d \<and> d < 10 \<and> unat d = digit_val c"
proof -
  from assms have "(0x30::8 word) \<le> byte c" "byte c \<le> 0x39"
    by (simp_all add: word_le_nat_alt unat_byte is_digit_def)
  then show ?thesis
    using digit_word [of "byte c"] by (simp add: digit_of_def unat_byte digit_val_def)
qed

lemma digit_of_other:
  assumes "\<not> is_digit c"
  shows "digit_of (byte c) = None \<or> (\<exists>d. digit_of (byte c) = Some d \<and> d \<ge> 10)"
proof -
  from assms have "\<not> ((0x30::8 word) \<le> byte c \<and> byte c \<le> 0x39)"
    by (simp add: word_le_nat_alt unat_byte is_digit_def)
  then show ?thesis
    using letter_word [of "lower (byte c)"] by (auto simp: digit_of_def)
qed

lemma dec_ge: "v \<le> dec v cs"
proof (induction cs arbitrary: v)
  case Nil
  show ?case by (simp add: dec_def)
next
  case (Cons c cs)
  have "v \<le> 10 * v + digit_val c" by simp
  also have "\<dots> \<le> dec (10 * v + digit_val c) cs" by (rule Cons.IH)
  finally show ?case by (simp add: dec_def)
qed

lemma cutoff10_eq: "cutoff10 = 1844674407370955162"
  by (simp add: cutoff10_def maxUint64_def)

lemma maxVal_eq: "maxVal = 18446744073709551615"
  by (simp add: maxVal_def)

lemma not_gt_maxVal: "\<not> (x::uint64) > maxVal"
  using unsigned_less [of x, where 'a = nat] by (simp add: maxVal_eq word_less_nat_alt)

lemma step_word:
  fixes n :: uint64 and d :: "8 word"
  assumes "d < 10"
  shows "(n \<ge> cutoff10 \<or> n * 10 + ucast d < n * 10) \<longleftrightarrow> 10 * unat n + unat d \<ge> 2 ^ 64"
    and "10 * unat n + unat d < 2 ^ 64 \<Longrightarrow> unat (n * 10 + ucast d) = 10 * unat n + unat d"
proof -
  have ud: "unat (ucast d :: uint64) = unat d"
  proof -
    have "unat d < 2 ^ 64"
      using unsigned_less [of d, where 'a = nat] by simp
    then show ?thesis
      by (simp add: unsigned_ucast_eq take_bit_nat_eq_self)
  qed
  from assms have d10: "unat d < 10"
    by (simp add: word_less_nat_alt)
  show "(n \<ge> cutoff10 \<or> n * 10 + ucast d < n * 10) \<longleftrightarrow> 10 * unat n + unat d \<ge> 2 ^ 64"
  proof (cases "n \<ge> cutoff10")
    case True
    then have "unat n \<ge> 1844674407370955162"
      by (simp add: cutoff10_eq word_le_nat_alt)
    with True show ?thesis by simp
  next
    case False
    then have small: "unat n < 1844674407370955162"
      by (simp add: cutoff10_eq word_le_nat_alt)
    then have "unat n * unat (10 :: uint64) < 2 ^ LENGTH(64)"
      by simp
    then have m: "unat (n * 10) = unat n * 10"
      by (simp add: unat_mult_lem [THEN iffD1])
    have "n * 10 + ucast d < n * 10 \<longleftrightarrow> \<not> (n * 10 \<le> n * 10 + ucast d)"
      by auto
    also have "\<dots> \<longleftrightarrow> \<not> (unat (n * 10) + unat (ucast d :: uint64) < 2 ^ LENGTH(64))"
      by (simp add: no_olen_add_nat)
    finally have "n * 10 + ucast d < n * 10 \<longleftrightarrow> 2 ^ 64 \<le> 10 * unat n + unat d"
      by (simp add: m ud not_less mult.commute)
    with False show ?thesis
      by simp
  qed
  show "unat (n * 10 + ucast d) = 10 * unat n + unat d" if lt: "10 * unat n + unat d < 2 ^ 64"
  proof -
    from lt have "unat n * unat (10 :: uint64) < 2 ^ LENGTH(64)"
      by simp
    then have m: "unat (n * 10) = unat n * 10"
      by (simp add: unat_mult_lem [THEN iffD1])
    from lt have "unat (n * 10) + unat (ucast d :: uint64) < 2 ^ LENGTH(64)"
      by (simp add: m ud)
    then have "unat (n * 10 + ucast d) = unat (n * 10) + unat (ucast d :: uint64)"
      by (simp add: unat_add_lem [THEN iffD1])
    then show ?thesis by (simp add: m ud)
  qed
qed

lemma ParseUint_loop_ok:
  "ParseUint_loop n cs = (r, None) \<longleftrightarrow>
     list_all is_digit cs \<and> dec (unat n) cs < 2 ^ 64 \<and> unat r = dec (unat n) cs"
proof (induction cs arbitrary: n)
  case Nil
  have "unat n < 2 ^ 64"
    using unsigned_less [of n] by simp
  then show ?case
    by (auto simp: dec_def word_unat_eq_iff)
next
  case (Cons c cs)
  show ?case
  proof (cases "is_digit c")
    case False
    with digit_of_other [of c] show ?thesis
      by auto
  next
    case True
    then obtain d where d: "digit_of (byte c) = Some d" "d < 10" "unat d = digit_val c"
      using digit_of_digit by blast
    have step: "dec (unat n) (c # cs) = dec (10 * unat n + unat d) cs"
      by (simp add: dec_def d(3))
    show ?thesis
    proof (cases "10 * unat n + unat d \<ge> 2 ^ 64")
      case over: True
      then have "n \<ge> cutoff10 \<or> n * 10 + ucast d < n * 10"
        using step_word(1) [OF d(2), of n] by simp
      moreover from d(2) have "\<not> 10 \<le> d"
        by simp
      ultimately have "snd (ParseUint_loop n (c # cs)) = Some ErrRange"
        using d(1) by (auto simp: Let_def)
      moreover have "dec (unat n) (c # cs) \<ge> 2 ^ 64"
        using over dec_ge [of "10 * unat n + unat d" cs] step by linarith
      ultimately show ?thesis
        by (cases "ParseUint_loop n (c # cs)") auto
    next
      case under: False
      then have no: "\<not> n \<ge> cutoff10" "\<not> n * 10 + ucast d < n * 10"
        using step_word(1) [OF d(2), of n] by auto
      have u: "unat (n * 10 + ucast d) = 10 * unat n + unat d"
        using step_word(2) [OF d(2), of n] under by simp
      from d(2) have "\<not> 10 \<le> d"
        by simp
      with d(1) no have "ParseUint_loop n (c # cs) = ParseUint_loop (n * 10 + ucast d) cs"
        by (simp add: Let_def not_gt_maxVal)
      then show ?thesis
        using Cons.IH [of "n * 10 + ucast d"] True by (simp add: u step)
    qed
  qed
qed

lemma ParseUint_loop_range: "ParseUint_loop n cs = (r, Some ErrRange) \<Longrightarrow> r = maxVal"
  by (induction cs arbitrary: n) (auto simp: Let_def split: option.splits if_splits)

lemma ParseUint_ok:
  "ParseUint s = (r, None) \<longleftrightarrow> is_decimal s \<and> decimal_value s < 2 ^ 64 \<and> unat r = decimal_value s"
  by (auto simp: ParseUint_def is_decimal_def decimal_value_def ParseUint_loop_ok)

lemma ParseUint_range: "ParseUint s = (r, Some ErrRange) \<Longrightarrow> r = maxVal"
  by (auto simp: ParseUint_def dest: ParseUint_loop_range split: if_splits)

lemma cutoff_eq: "(push_bit 63 1 :: uint64) = 9223372036854775808"
  by simp

lemma ParseInt_via:
  assumes "ds = (if c = CHR ''+'' \<or> c = CHR ''-'' then cs else c # cs)"
    and "ParseUint ds = (un, err)"
  shows "ParseInt (c # cs) =
     (if err \<noteq> None \<and> err \<noteq> Some ErrRange then (0, err)
      else if c \<noteq> CHR ''-'' \<and> un \<ge> 9223372036854775808 then (9223372036854775807, Some ErrRange)
      else if c = CHR ''-'' \<and> un > 9223372036854775808 then (- 9223372036854775808, Some ErrRange)
      else (if c = CHR ''-'' then - un else un, None))"
proof (cases "c = CHR ''+'' \<or> c = CHR ''-''")
  case True
  with assms have "ParseUint cs = (un, err)"
    by simp
  with True show ?thesis
    by (auto simp: ParseInt_def Let_def)
next
  case False
  with assms have "ParseUint (c # cs) = (un, err)"
    by simp
  with False show ?thesis
    by (auto simp: ParseInt_def Let_def)
qed

lemma ParseInt_Some:
  assumes "int64_decimal s = Some v"
  shows "ParseInt s = (word_of_int v, None)"
proof (cases s)
  case Nil
  with assms show ?thesis by (simp add: int64_decimal_def)
next
  case (Cons c cs)
  define ds where "ds = (if c = CHR ''+'' \<or> c = CHR ''-'' then cs else c # cs)"
  from assms Cons have dec: "is_decimal ds"
    and v: "v = (if c = CHR ''-'' then - int (decimal_value ds) else int (decimal_value ds))"
    and range: "- (2 ^ 63) \<le> v" "v < 2 ^ 63"
    by (auto simp: int64_decimal_def Let_def ds_def split: if_splits)
  from v range have small: "decimal_value ds < 2 ^ 64"
    by (cases "c = CHR ''-''") simp_all
  define un :: uint64 where "un = word_of_nat (decimal_value ds)"
  from small have un: "unat un = decimal_value ds"
    by (simp add: un_def unat_of_nat)
  with dec small have P: "ParseUint ds = (un, None)"
    by (simp add: ParseUint_ok)
  show ?thesis
  proof (cases "c = CHR ''-''")
    case True
    with v range have "decimal_value ds \<le> 2 ^ 63" by simp
    then have "\<not> un > 9223372036854775808"
      by (simp add: word_less_nat_alt un)
    moreover have "- un = word_of_int v"
      using True v by (simp add: un_def)
    ultimately show ?thesis
      unfolding Cons ParseInt_via [OF ds_def P] using True by simp
  next
    case False
    with v range have "decimal_value ds < 2 ^ 63" by simp
    then have "\<not> un \<ge> 9223372036854775808"
      by (simp add: word_le_nat_alt un)
    moreover have "un = word_of_int v"
      using False v by (simp add: un_def)
    ultimately show ?thesis
      unfolding Cons ParseInt_via [OF ds_def P] using False by simp
  qed
qed

lemma ParseInt_None:
  assumes "int64_decimal s = None"
  shows "snd (ParseInt s) \<noteq> None"
proof (cases s)
  case Nil
  then show ?thesis by (simp add: ParseInt_def)
next
  case (Cons c cs)
  define ds where "ds = (if c = CHR ''+'' \<or> c = CHR ''-'' then cs else c # cs)"
  define v where "v = (if c = CHR ''-'' then - int (decimal_value ds) else int (decimal_value ds))"
  from assms Cons have bad: "\<not> (is_decimal ds \<and> - (2 ^ 63) \<le> v \<and> v < 2 ^ 63)"
    by (auto simp: int64_decimal_def Let_def ds_def v_def split: if_splits)
  obtain un err where P: "ParseUint ds = (un, err)"
    by (cases "ParseUint ds")
  note unfold = ParseInt_via [OF ds_def P]
  show ?thesis
  proof (cases err)
    case (Some e)
    show ?thesis
    proof (cases e)
      case ErrSyntax
      with Some show ?thesis
        unfolding Cons unfold by simp
    next
      case ErrRange
      with Some P have "un = 18446744073709551615"
        using ParseUint_range [of ds un] by (simp add: maxVal_eq)
      with Some ErrRange show ?thesis
        unfolding Cons unfold by simp
    qed
  next
    case None
    with P have ok: "is_decimal ds" "unat un = decimal_value ds"
      by (simp_all add: ParseUint_ok)
    show ?thesis
    proof (cases "c = CHR ''-''")
      case True
      with bad ok have "decimal_value ds > 2 ^ 63"
        by (simp add: v_def)
      then have "un > 9223372036854775808"
        by (simp add: word_less_nat_alt ok(2))
      with True None show ?thesis
        unfolding Cons unfold by simp
    next
      case False
      with bad ok have "decimal_value ds \<ge> 2 ^ 63"
        by (simp add: v_def)
      then have "un \<ge> 9223372036854775808"
        by (simp add: word_le_nat_alt ok(2))
      with False None show ?thesis
        unfolding Cons unfold by simp
    qed
  qed
qed

lemma ParseInt_1: "ParseInt ''1'' = (1, None)"
  by code_simp

lemma ParseInt_0: "ParseInt ''0'' = (0, None)"
  by code_simp

lemma ParseInt_minus_5: "ParseInt ''-5'' = (- 5, None)"
  by code_simp

lemma ParseInt_999: "ParseInt ''999'' = (999, None)"
  by code_simp

lemma sint_word_of_int_64:
  assumes "- (2 ^ 63) \<le> v" and "v < 2 ^ 63"
  shows "sint (word_of_int v :: int64) = v"
  using assms by (simp add: signed_of_int signed_take_bit_int_eq_self)

text \<open>
  \<open>ParseInt\<close> returns without an error exactly on the optionally signed decimal numerals
  of the signed 64-bit range, and the \<^verbatim>\<open>int64\<close> it returns is the value the numeral
  denotes.
\<close>

theorem ParseInt_reads_int64_decimals:
  "(snd (ParseInt s) = None) = (int64_decimal s \<noteq> None) \<and>
   (case int64_decimal s of
      Some v \<Rightarrow> sint (fst (ParseInt s)) = v \<and> - (2 ^ 63) \<le> v \<and> v < 2 ^ 63
    | None \<Rightarrow> True)"
proof (cases "int64_decimal s")
  case None
  then show ?thesis
    using ParseInt_None [of s] by simp
next
  case (Some v)
  then have range: "- (2 ^ 63) \<le> v" "v < 2 ^ 63"
    by (auto simp: int64_decimal_def Let_def split: list.splits if_splits)
  from Some have "ParseInt s = (word_of_int v, None)"
    by (rule ParseInt_Some)
  with Some range show ?thesis
    by (simp add: sint_word_of_int_64)
qed

subsection \<open>Submitting a contact message\<close>






text \<open>
  When the create fails instead, the handler returns at once: the error is logged, no
  publish is attempted and the answer is a server-side failure.
\<close>

theorem failed_create_is_not_published:
  assumes "bind body = Inr req" and "\<not> IsSpam req"
    and "repo_CreateContactMessage (repo h) (new_ContactMessage req) s = ((Some err, message'), s1)"
  shows "Handler_CreateContactMessage bind h body s =
           (PersistenceError ''Failed to submit message'',
            [Repo_CreateContactMessage (new_ContactMessage req), Logged err], s1)"
  using assms
  by (simp add: Handler_CreateContactMessage_def Let_def response_defs)

theorem failed_create_is_not_published_witness:
  "Handler_CreateContactMessage (ShouldBindJSON_with (valid_ContactMessageCreate contains_at))
       mockHandler_repository_error (Some body_john) nothing_captured
     = (PersistenceError ''Failed to submit message'',
        [Repo_CreateContactMessage (new_ContactMessage body_john), Logged (New ''database error'')],
        nothing_captured)"
proof -
  have 1: "ShouldBindJSON_with (valid_ContactMessageCreate contains_at) (Some body_john)
             = Inr body_john"
    by (simp add: bind_defs body_john_def)
  have 2: "\<not> IsSpam body_john"
    by (simp add: IsSpam_def body_john_def)
  have 3: "repo_CreateContactMessage (repo mockHandler_repository_error)
             (new_ContactMessage body_john) nothing_captured
             = ((Some (New ''database error''), new_ContactMessage body_john), nothing_captured)"
    by (simp add: mock_defs)
  show ?thesis
    using failed_create_is_not_published
      [where bind = "ShouldBindJSON_with (valid_ContactMessageCreate contains_at)"
         and body = "Some body_john" and h = mockHandler_repository_error
         and s = nothing_captured, OF 1 2 3] .
qed

text \<open>
  C6. When a submission has been stored (it is bound, it is not spam, and the create
  returned no error), the answer is the success acknowledgment whatever the publisher
  does; when the publisher fails, its error goes to the log and nowhere else.
\<close>

theorem publish_failure_is_not_surfaced:
  assumes "bind body = Inr req" and "\<not> IsSpam req"
    and "repo_CreateContactMessage (repo h) (new_ContactMessage req) s = ((None, message'), s1)"
    and "p \<lparr>MessageID = m_ID message'\<rparr> s1 = (Some err, s2)"
  shows "Handler_CreateContactMessage bind (h\<lparr>publisher := p\<rparr>) body s =
           (SuccessAcknowledgment,
            [Repo_CreateContactMessage (new_ContactMessage req),
             Publisher_Publish \<lparr>MessageID = m_ID message'\<rparr>, Logged err], s2) \<and>
         fst (Handler_CreateContactMessage bind (h\<lparr>publisher := q\<rparr>) body s) = SuccessAcknowledgment"
proof -
  have "Handler_CreateContactMessage bind (h\<lparr>publisher := p\<rparr>) body s =
           (SuccessAcknowledgment,
            [Repo_CreateContactMessage (new_ContactMessage req),
             Publisher_Publish \<lparr>MessageID = m_ID message'\<rparr>, Logged err], s2)"
    using assms
    by (simp add: Handler_CreateContactMessage_def Let_def response_defs)
  moreover have "fst (Handler_CreateContactMessage bind (h\<lparr>publisher := q\<rparr>) body s)
                   = SuccessAcknowledgment"
    using assms(1,2,3)
    by (simp add: Handler_CreateContactMessage_def Let_def response_defs
        split: prod.splits option.splits)
  ultimately show ?thesis
    by simp
qed

theorem publish_failure_is_not_surfaced_witness:
  "Handler_CreateContactMessage (ShouldBindJSON_with (valid_ContactMessageCreate contains_at))
       mockHandler_publish_error (Some body_john) nothing_captured
     = (SuccessAcknowledgment,
        [Repo_CreateContactMessage (new_ContactMessage body_john),
         Publisher_Publish \<lparr>MessageID = 1\<rparr>, Logged (New ''mq down'')],
        nothing_captured\<lparr>createdMessage := Some ((new_ContactMessage body_john)\<lparr>m_ID := 1\<rparr>)\<rparr>) \<and>
   fst (Handler_CreateContactMessage (ShouldBindJSON_with (valid_ContactMessageCreate contains_at))
       mockHandler (Some body_john) nothing_captured) = SuccessAcknowledgment"
proof -
  let ?bind = "ShouldBindJSON_with (valid_ContactMessageCreate contains_at)"
  let ?m = "new_ContactMessage body_john"
  let ?s1 = "nothing_captured\<lparr>createdMessage := Some (?m\<lparr>m_ID := 1\<rparr>)\<rparr>"
  let ?p = "\<lambda>(event :: ContactMessageEvent) (s :: captured). (Some (New ''mq down''), s)"
  have 1: "?bind (Some body_john) = Inr body_john"
    by (simp add: bind_defs body_john_def)
  have 2: "\<not> IsSpam body_john"
    by (simp add: IsSpam_def body_john_def)
  have 3: "repo_CreateContactMessage (repo mockHandler) ?m nothing_captured
             = ((None, ?m\<lparr>m_ID := 1\<rparr>), ?s1)"
    by (simp add: mock_defs)
  have 4: "?p \<lparr>MessageID = m_ID (?m\<lparr>m_ID := 1\<rparr>)\<rparr> ?s1 = (Some (New ''mq down''), ?s1)"
    by simp
  have h1: "mockHandler\<lparr>publisher := ?p\<rparr> = mockHandler_publish_error"
    by (simp add: mock_defs)
  have h2: "mockHandler\<lparr>publisher := mockPublisher\<rparr> = mockHandler"
    by (simp add: mock_defs)
  show ?thesis
    using publish_failure_is_not_surfaced
      [where bind = "?bind" and body = "Some body_john" and req = body_john
        and h = mockHandler and s = nothing_captured and p = "?p" and q = mockPublisher,
        OF 1 2 3 4]
    by (simp add: h1 h2)
qed

subsection \<open>Updating a recipient\<close>

text \<open>
  C3. In an update of an existing record (the identifier parses, the repository finds
  the record, the payload binds), the record handed to the repository's update is the
  fetched record with each of email, name and isActive overwritten by the payload's
  value when the payload has the field, and left as fetched when it has not; no other
  field changes. That record is what is persisted and, the update done, what the answer
  carries (the handler answers with the very record it handed over, as the call leaves
  it). In particular a payload with only \<^verbatim>\<open>name\<close> leaves \<^verbatim>\<open>email\<close> and \<^verbatim>\<open>isActive\<close>
  as they were.
\<close>

theorem update_persists_merged_record:
  assumes "ParseInt param_id = (id64, None)"
    and "repo_GetRecipientByID (repo h) id64 s = (Inr existing, s1)"
    and "bind body = Inr req"
    and "repo_UpdateRecipient (repo h) (apply_updates existing req) s1 = ((None, existing'), s2)"
  shows "Handler_UpdateRecipient bind h param_id body s =
           (JSON StatusOK (JSON_Recipient existing'),
            [Repo_GetRecipientByID id64, Repo_UpdateRecipient (apply_updates existing req)], s2) \<and>
         apply_updates existing req =
           existing\<lparr>r_Email := (case ru_Email req of Some v \<Rightarrow> v | None \<Rightarrow> r_Email existing),
                    r_Name := (case ru_Name req of Some v \<Rightarrow> v | None \<Rightarrow> r_Name existing),
                    r_IsActive := (case ru_IsActive req of Some v \<Rightarrow> v | None \<Rightarrow> r_IsActive existing)\<rparr>"
  using assms
  by (auto simp: Handler_UpdateRecipient_def apply_updates_def Let_def response_defs
      split: option.splits)

theorem update_persists_merged_record_witness:
  "Handler_UpdateRecipient (ShouldBindJSON_with (valid_RecipientUpdate contains_at))
      mockHandler ''1'' (Some body_only_name) nothing_captured
     = (JSON StatusOK (JSON_Recipient (createTestRecipient\<lparr>r_Name := ''Only Name Updated''\<rparr>)),
        [Repo_GetRecipientByID 1,
         Repo_UpdateRecipient (createTestRecipient\<lparr>r_Name := ''Only Name Updated''\<rparr>)],
        nothing_captured\<lparr>updatedRecipient :=
          Some (createTestRecipient\<lparr>r_Name := ''Only Name Updated''\<rparr>)\<rparr>) \<and>
   r_Email (apply_updates createTestRecipient body_only_name) = ''admin@example.com'' \<and>
   r_IsActive (apply_updates createTestRecipient body_only_name) = True"
proof -
  let ?bind = "ShouldBindJSON_with (valid_RecipientUpdate contains_at)"
  let ?merged = "createTestRecipient\<lparr>r_Name := ''Only Name Updated''\<rparr>"
  have m: "apply_updates createTestRecipient body_only_name = ?merged"
    by (simp add: apply_updates_def body_only_name_def)
  have 2: "repo_GetRecipientByID (repo mockHandler) 1 nothing_captured
             = (Inr createTestRecipient, nothing_captured)"
    by (simp add: mock_defs)
  have 3: "?bind (Some body_only_name) = Inr body_only_name"
    by (simp add: bind_defs body_only_name_def)
  have 4: "repo_UpdateRecipient (repo mockHandler)
              (apply_updates createTestRecipient body_only_name) nothing_captured
             = ((None, ?merged), nothing_captured\<lparr>updatedRecipient := Some ?merged\<rparr>)"
    by (simp add: m) (simp add: mock_defs)
  show ?thesis
    using update_persists_merged_record
      [where bind = "?bind" and body = "Some body_only_name" and h = mockHandler
         and s = nothing_captured, OF ParseInt_1 2 3 4]
    by (simp add: m) (simp add: createTestRecipient_def)
qed

text \<open>
  When the repository's update fails, the handler logs the error and answers with a
  server-side failure.
\<close>

lemma failed_update_is_reported:
  assumes "ParseInt param_id = (id64, None)"
    and "repo_GetRecipientByID (repo h) id64 s = (Inr existing, s1)"
    and "bind body = Inr req"
    and "repo_UpdateRecipient (repo h) (apply_updates existing req) s1 = ((Some err, existing'), s2)"
  shows "Handler_UpdateRecipient bind h param_id body s =
           (PersistenceError ''Failed to update recipient'',
            [Repo_GetRecipientByID id64, Repo_UpdateRecipient (apply_updates existing req),
             Logged err], s2)"
  using assms
  by (simp add: Handler_UpdateRecipient_def Let_def response_defs)

text \<open>
  C9. An update of an existing record whose payload has none of email, name and
  isActive is accepted: the validation of the payload passes, the handler has no check
  of its own against it, the fetched record goes to the repository's update with every
  field unchanged, and the answer is 200 with that record.
\<close>

theorem empty_update_is_accepted:
  assumes "ParseInt param_id = (id64, None)"
    and "repo_GetRecipientByID (repo h) id64 s = (Inr existing, s1)"
    and "bind body = Inr \<lparr>ru_Email = None, ru_Name = None, ru_IsActive = None\<rparr>"
    and "repo_UpdateRecipient (repo h) existing s1 = ((None, existing'), s2)"
  shows "Handler_UpdateRecipient bind h param_id body s =
           (JSON StatusOK (JSON_Recipient existing'),
            [Repo_GetRecipientByID id64, Repo_UpdateRecipient existing], s2) \<and>
         ShouldBindJSON_with (valid_RecipientUpdate valid_email)
             (Some \<lparr>ru_Email = None, ru_Name = None, ru_IsActive = None\<rparr>)
           = Inr \<lparr>ru_Email = None, ru_Name = None, ru_IsActive = None\<rparr>"
  using assms
  by (auto simp: Handler_UpdateRecipient_def apply_updates_def Let_def response_defs
      ShouldBindJSON_with_def valid_RecipientUpdate_def)

theorem empty_update_is_accepted_witness:
  "Handler_UpdateRecipient (ShouldBindJSON_with (valid_RecipientUpdate contains_at))
      mockHandler ''1'' (Some body_empty) nothing_captured
     = (JSON StatusOK (JSON_Recipient createTestRecipient),
        [Repo_GetRecipientByID 1, Repo_UpdateRecipient createTestRecipient],
        nothing_captured\<lparr>updatedRecipient := Some createTestRecipient\<rparr>)"
proof -
  let ?bind = "ShouldBindJSON_with (valid_RecipientUpdate contains_at)"
  have 2: "repo_GetRecipientByID (repo mockHandler) 1 nothing_captured
             = (Inr createTestRecipient, nothing_captured)"
    by (simp add: mock_defs)
  have 3: "?bind (Some body_empty) = Inr \<lparr>ru_Email = None, ru_Name = None, ru_IsActive = None\<rparr>"
    by (simp add: bind_defs body_empty_def)
  have 4: "repo_UpdateRecipient (repo mockHandler) createTestRecipient nothing_captured
             = ((None, createTestRecipient),
                nothing_captured\<lparr>updatedRecipient := Some createTestRecipient\<rparr>)"
    by (simp add: mock_defs)
  show ?thesis
    using empty_update_is_accepted
      [where bind = "?bind" and body = "Some body_empty" and h = mockHandler
         and s = nothing_captured, OF ParseInt_1 2 3 4]
    by simp
qed

subsection \<open>Creating and deleting a recipient\<close>

text \<open>
  A recipient is created with the email and the name of the payload, active unless the
  payload says \<^verbatim>\<open>isActive: false\<close>; the answer is 201 with the record as the
  repository's create leaves it, and the Location header is made from its identifier.
\<close>

theorem recipient_is_active_unless_told_otherwise:
  assumes "bind body = Inr req"
    and "repo_CreateRecipient (repo h) (new_Recipient req) s = ((None, recipient'), s1)"
  shows "Handler_CreateRecipient bind h body s =
           (Response StatusCreated (JSON_Recipient recipient') (Some (r_ID recipient')),
            [Repo_CreateRecipient (new_Recipient req)], s1) \<and>
         r_IsActive (new_Recipient req) = (case rc_IsActive req of None \<Rightarrow> True | Some a \<Rightarrow> a) \<and>
         r_Email (new_Recipient req) = rc_Email req \<and>
         r_Name (new_Recipient req) = rc_Name req"
  using assms
  by (auto simp: Handler_CreateRecipient_def new_Recipient_def Let_def split: option.splits)

theorem recipient_is_active_unless_told_otherwise_witness:
  "Handler_CreateRecipient (ShouldBindJSON_with (valid_RecipientCreate contains_at))
       mockHandler (Some body_new_recipient) nothing_captured
     = (Response StatusCreated
          (JSON_Recipient \<lparr>r_ID = 1, r_Email = ''new@example.com'', r_Name = ''New Recipient'',
             r_IsActive = True, r_CreatedAt = 0, r_UpdatedAt = 0\<rparr>) (Some 1),
        [Repo_CreateRecipient \<lparr>r_ID = 0, r_Email = ''new@example.com'', r_Name = ''New Recipient'',
             r_IsActive = True, r_CreatedAt = 0, r_UpdatedAt = 0\<rparr>],
        nothing_captured)"
proof -
  let ?bind = "ShouldBindJSON_with (valid_RecipientCreate contains_at)"
  let ?r = "\<lparr>r_ID = 0, r_Email = ''new@example.com'', r_Name = ''New Recipient'',
             r_IsActive = True, r_CreatedAt = 0, r_UpdatedAt = 0\<rparr>"
  have n: "new_Recipient body_new_recipient = ?r"
    by (simp add: new_Recipient_def body_new_recipient_def)
  have 1: "?bind (Some body_new_recipient) = Inr body_new_recipient"
    by (simp add: bind_defs body_new_recipient_def)
  have 2: "repo_CreateRecipient (repo mockHandler) (new_Recipient body_new_recipient) nothing_captured
             = ((None, ?r\<lparr>r_ID := 1\<rparr>), nothing_captured)"
    by (simp add: n) (simp add: mock_defs)
  show ?thesis
    using recipient_is_active_unless_told_otherwise
      [where bind = "?bind" and body = "Some body_new_recipient" and h = mockHandler
         and s = nothing_captured, OF 1 2]
    by (simp add: n)
qed

text \<open>
  When the repository's delete reports that no row was there, the answer is 404.
\<close>

theorem delete_of_missing_recipient_is_not_found:
  assumes "ParseInt param_id = (id64, None)"
    and "repo_DeleteRecipient (repo h) id64 s = (Some err, s1)"
    and "Is_ErrRecordNotFound err"
  shows "Handler_DeleteRecipient h param_id s =
           (NotFoundError ''Recipient not found'', [Repo_DeleteRecipient id64], s1)"
  using assms
  by (simp add: Handler_DeleteRecipient_def response_defs)

theorem delete_of_missing_recipient_is_not_found_witness:
  "Handler_DeleteRecipient mockHandler ''999'' nothing_captured =
     (NotFoundError ''Recipient not found'', [Repo_DeleteRecipient 999], nothing_captured)"
proof -
  have 2: "repo_DeleteRecipient (repo mockHandler) 999 nothing_captured
             = (Some ErrRecordNotFound, nothing_captured)"
    by (simp add: mock_defs)
  have 3: "Is_ErrRecordNotFound ErrRecordNotFound"
    by simp
  show ?thesis
    using delete_of_missing_recipient_is_not_found [OF ParseInt_999 2 3] .
qed

subsection \<open>Validation comes before every write\<close>

text \<open>
  C5, as the code has it. Each handler on its own, whatever the handler's repository and
  its state: a body that does not bind is answered with the validation error before any
  call when a contact message is created, and likewise when a recipient is created. When
  a recipient is updated the identifier is parsed and the record is fetched first: once
  the record is found, a body that does not bind is answered with the validation error
  after that one read. In no case, whatever the identifier and whether or not the record
  exists, does the update handler make a writing call for a body that does not bind.
\<close>

theorem validation_precedes_every_write:
  "(bind_c body_c = Inl err_c \<longrightarrow>
      Handler_CreateContactMessage bind_c h_c body_c s_c = (ValidationError err_c, [], s_c)) \<and>
   (bind_r body_r = Inl err_r \<longrightarrow>
      Handler_CreateRecipient bind_r h_r body_r s_r = (ValidationError err_r, [], s_r)) \<and>
   (bind_u body_u = Inl err_u \<and> ParseInt param_id = (ident, None) \<and>
    repo_GetRecipientByID (repo h) ident s = (Inr existing, s_found) \<longrightarrow>
      Handler_UpdateRecipient bind_u h param_id body_u s
        = (ValidationError err_u, [Repo_GetRecipientByID ident], s_found)) \<and>
   (bind_u body_u = Inl err_u \<longrightarrow>
      filter is_write_call (fst (snd (Handler_UpdateRecipient bind_u h p body_u s_any))) = [])"
proof -
  have create_message: "Handler_CreateContactMessage bind_c h_c body_c s_c = (ValidationError err_c, [], s_c)"
    if "bind_c body_c = Inl err_c"
    using that by (simp add: Handler_CreateContactMessage_def response_defs)
  have create_recipient: "Handler_CreateRecipient bind_r h_r body_r s_r = (ValidationError err_r, [], s_r)"
    if "bind_r body_r = Inl err_r"
    using that by (simp add: Handler_CreateRecipient_def response_defs)
  have update_found: "Handler_UpdateRecipient bind_u h param_id body_u s
        = (ValidationError err_u, [Repo_GetRecipientByID ident], s_found)"
    if "bind_u body_u = Inl err_u" and "ParseInt param_id = (ident, None)"
      and "repo_GetRecipientByID (repo h) ident s = (Inr existing, s_found)"
    using that by (simp add: Handler_UpdateRecipient_def response_defs)
  have update_no_write:
    "filter is_write_call (fst (snd (Handler_UpdateRecipient bind_u h p body_u s_any))) = []"
    if "bind_u body_u = Inl err_u"
    using that
    by (auto simp: Handler_UpdateRecipient_def response_defs
        split: prod.splits option.splits sum.splits)
  from create_message create_recipient update_found update_no_write show ?thesis
    by blast
qed

theorem validation_precedes_every_write_witness:
  "Handler_CreateContactMessage (ShouldBindJSON_with (valid_ContactMessageCreate contains_at))
      mockHandler None nothing_captured
     = (ValidationError ''invalid JSON'', [], nothing_captured) \<and>
   Handler_CreateRecipient (ShouldBindJSON_with (valid_RecipientCreate contains_at))
      mockHandler (Some body_recipient_bad_email) nothing_captured
     = (ValidationError ''validation failed'', [], nothing_captured) \<and>
   Handler_UpdateRecipient (ShouldBindJSON_with (valid_RecipientUpdate contains_at))
      mockHandler ''1'' (Some body_bad_email) nothing_captured
     = (ValidationError ''validation failed'', [Repo_GetRecipientByID 1], nothing_captured) \<and>
   filter is_write_call (fst (snd (Handler_UpdateRecipient
      (ShouldBindJSON_with (valid_RecipientUpdate contains_at))
      mockHandler ''999'' (Some body_bad_email) nothing_captured))) = []"
proof -
  have 1: "ShouldBindJSON_with (valid_ContactMessageCreate contains_at) None = Inl ''invalid JSON''"
    by (simp add: bind_defs)
  have 2: "ShouldBindJSON_with (valid_RecipientCreate contains_at) (Some body_recipient_bad_email)
             = Inl ''validation failed''"
    by (simp add: bind_defs body_recipient_bad_email_def)
  have 3: "ShouldBindJSON_with (valid_RecipientUpdate contains_at) (Some body_bad_email)
             = Inl ''validation failed''"
    by (simp add: bind_defs body_bad_email_def)
  have 5: "repo_GetRecipientByID (repo mockHandler) 1 nothing_captured
             = (Inr createTestRecipient, nothing_captured)"
    by (simp add: mock_defs)
  show ?thesis
    using validation_precedes_every_write
      [where bind_c = "ShouldBindJSON_with (valid_ContactMessageCreate contains_at)"
         and body_c = None and err_c = "''invalid JSON''"
         and h_c = mockHandler and s_c = nothing_captured
         and bind_r = "ShouldBindJSON_with (valid_RecipientCreate contains_at)"
         and body_r = "Some body_recipient_bad_email" and err_r = "''validation failed''"
         and h_r = mockHandler and s_r = nothing_captured
         and bind_u = "ShouldBindJSON_with (valid_RecipientUpdate contains_at)"
         and body_u = "Some body_bad_email" and err_u = "''validation failed''"
         and param_id = "''1''" and ident = 1 and existing = createTestRecipient
         and h = mockHandler and s = nothing_captured and s_found = nothing_captured
         and p = "''999''" and s_any = nothing_captured]
      1 2 3 ParseInt_1 5
    by simp
qed

text \<open>
  The update of \<^verbatim>\<open>TestUpdateRecipient_ValidationError\<close>: the repository is called, to
  fetch record 1, before the payload is found invalid.
\<close>

theorem update_fetches_before_validating:
  "Handler_UpdateRecipient (ShouldBindJSON_with (valid_RecipientUpdate contains_at))
      mockHandler ''1'' (Some body_bad_email) nothing_captured
     = (ValidationError ''validation failed'', [Repo_GetRecipientByID 1], nothing_captured) \<and>
   is_repository_call (Repo_GetRecipientByID 1)"
  by (simp add: Handler_UpdateRecipient_def bind_defs body_bad_email_def
      response_defs mock_defs ParseInt_1)

subsection \<open>Length bounds\<close>

text \<open>
  C7. The bounds on the lengths are inclusive. Take a submission that passes the
  validation. With its name replaced by one of exactly 255 characters, its subject by
  one of exactly 500, or its message by one of exactly 10000, it is still accepted; with
  256, 501 or 10001 characters it is rejected with a validation error before any call
  to the repository.
\<close>

theorem length_bounds_are_inclusive:
  assumes "valid_ContactMessageCreate valid_email req"
    and "length n255 = 255" and "length n256 = 256"
    and "length s500 = 500" and "length s501 = 501"
    and "length m10000 = 10000" and "length m10001 = 10001"
  shows "accepts valid_email h s (req\<lparr>c_Name := n255\<rparr>) \<and>
         rejects valid_email h s (req\<lparr>c_Name := n256\<rparr>) \<and>
         accepts valid_email h s (req\<lparr>c_Subject := s500\<rparr>) \<and>
         rejects valid_email h s (req\<lparr>c_Subject := s501\<rparr>) \<and>
         accepts valid_email h s (req\<lparr>c_Message := m10000\<rparr>) \<and>
         rejects valid_email h s (req\<lparr>c_Message := m10001\<rparr>)"
proof -
  have acc: "accepts valid_email h s r" if "valid_ContactMessageCreate valid_email r" for r
    using that
    by (auto simp: accepts_def ShouldBindJSON_with_def Handler_CreateContactMessage_def Let_def
        response_defs split: prod.splits option.splits)
  have rej: "rejects valid_email h s r" if "\<not> valid_ContactMessageCreate valid_email r" for r
    using that
    by (simp add: rejects_def ShouldBindJSON_with_def Handler_CreateContactMessage_def response_defs)
  from assms have
    "valid_ContactMessageCreate valid_email (req\<lparr>c_Name := n255\<rparr>)"
    "\<not> valid_ContactMessageCreate valid_email (req\<lparr>c_Name := n256\<rparr>)"
    "valid_ContactMessageCreate valid_email (req\<lparr>c_Subject := s500\<rparr>)"
    "\<not> valid_ContactMessageCreate valid_email (req\<lparr>c_Subject := s501\<rparr>)"
    "valid_ContactMessageCreate valid_email (req\<lparr>c_Message := m10000\<rparr>)"
    "\<not> valid_ContactMessageCreate valid_email (req\<lparr>c_Message := m10001\<rparr>)"
    by (simp_all add: valid_ContactMessageCreate_def)
  then show ?thesis
    using acc rej by blast
qed

theorem length_bounds_are_inclusive_witness:
  "accepts contains_at mockHandler nothing_captured (body_john\<lparr>c_Name := replicate 255 CHR ''a''\<rparr>) \<and>
   rejects contains_at mockHandler nothing_captured (body_john\<lparr>c_Name := replicate 256 CHR ''a''\<rparr>) \<and>
   accepts contains_at mockHandler nothing_captured (body_john\<lparr>c_Subject := replicate 500 CHR ''a''\<rparr>) \<and>
   rejects contains_at mockHandler nothing_captured (body_john\<lparr>c_Subject := replicate 501 CHR ''a''\<rparr>) \<and>
   accepts contains_at mockHandler nothing_captured (body_john\<lparr>c_Message := replicate 10000 CHR ''a''\<rparr>) \<and>
   rejects contains_at mockHandler nothing_captured (body_john\<lparr>c_Message := replicate 10001 CHR ''a''\<rparr>)"
proof -
  have 1: "valid_ContactMessageCreate contains_at body_john"
    by (simp add: bind_defs body_john_def)
  show ?thesis
    by (rule length_bounds_are_inclusive [OF 1]) (simp_all only: length_replicate)
qed

subsection \<open>Identifiers\<close>

text \<open>
  C4, as the code has it. GetContactMessage, GetRecipient, UpdateRecipient and
  DeleteRecipient answer InvalidIdentifier, with no call made, exactly for the
  identifiers that are not an optionally signed decimal numeral of a value in the signed
  64-bit range: the empty string, a string with anything but digits after an optional
  sign, a value out of range. Every other identifier, zero and the negative ones
  included, is parsed, and the first thing the handler does is to call the repository
  with its value.
\<close>

theorem identifier_rejected_iff_not_int64_decimal:
  "(case int64_decimal param_id of
      None \<Rightarrow>
        Handler_GetContactMessage h param_id s = (InvalidIdentifier, [], s) \<and>
        Handler_GetRecipient h param_id s = (InvalidIdentifier, [], s) \<and>
        Handler_UpdateRecipient bind h param_id body s = (InvalidIdentifier, [], s) \<and>
        Handler_DeleteRecipient h param_id s = (InvalidIdentifier, [], s)
    | Some v \<Rightarrow>
        take 1 (fst (snd (Handler_GetContactMessage h param_id s)))
          = [Repo_GetContactMessageByID (word_of_int v)] \<and>
        take 1 (fst (snd (Handler_GetRecipient h param_id s)))
          = [Repo_GetRecipientByID (word_of_int v)] \<and>
        take 1 (fst (snd (Handler_UpdateRecipient bind h param_id body s)))
          = [Repo_GetRecipientByID (word_of_int v)] \<and>
        take 1 (fst (snd (Handler_DeleteRecipient h param_id s)))
          = [Repo_DeleteRecipient (word_of_int v)])"
proof (cases "int64_decimal param_id")
  case None
  then obtain n e where "ParseInt param_id = (n, Some e)"
    using ParseInt_None [of param_id] by (cases "ParseInt param_id") auto
  with None show ?thesis
    by (simp add: Handler_GetContactMessage_def Handler_GetRecipient_def
        Handler_UpdateRecipient_def Handler_DeleteRecipient_def response_defs)
next
  case (Some v)
  then have "ParseInt param_id = (word_of_int v, None)"
    by (rule ParseInt_Some)
  with Some show ?thesis
    by (simp add: Handler_GetContactMessage_def Handler_GetRecipient_def
        Handler_UpdateRecipient_def Handler_DeleteRecipient_def response_defs Let_def
        split: prod.splits sum.splits option.splits)
qed

text \<open>
  The identifiers \<^verbatim>\<open>-5\<close> and \<^verbatim>\<open>0\<close> are not positive; the repository is called with
  them and reports that no such record exists.
\<close>

theorem negative_identifier_reaches_repository:
  "Handler_GetRecipient mockHandler ''-5'' nothing_captured
     = (NotFoundError ''Recipient not found'', [Repo_GetRecipientByID (- 5)], nothing_captured) \<and>
   Handler_DeleteRecipient mockHandler ''0'' nothing_captured
     = (NotFoundError ''Recipient not found'', [Repo_DeleteRecipient 0], nothing_captured)"
  by (simp add: Handler_GetRecipient_def Handler_DeleteRecipient_def response_defs mock_defs
      ParseInt_minus_5 ParseInt_0)

subsection \<open>The repository\<close>

lemma status_updates_status:
  "status_updates db status lastError ''status'' = Some (String_value status)"
  by (simp add: status_updates_def Let_def split: option.splits)

lemma status_updates_last_error:
  "status_updates db status lastError ''last_error'' = map_option String_value lastError"
  by (simp add: status_updates_def Let_def split: option.splits)

lemma status_updates_sent_at:
  "status_updates db status lastError ''sent_at'' =
     (if status = MessageStatusSent then Some (Time_value (NowFunc db)) else None)"
  by (simp add: status_updates_def Let_def split: option.splits)

lemma status_updates_attempts:
  "status_updates db status lastError ''attempts'' =
     (if status = MessageStatusFailed then Some (Expr ''attempts + 1'') else None)"
  by (simp add: status_updates_def Let_def split: option.splits)

lemmas status_updates_at = status_updates_status status_updates_last_error
  status_updates_sent_at status_updates_attempts

lemma assign_status_updates:
  "assign_columns now (status_updates db status lastError) row =
     row\<lparr>m_Status := status,
         m_LastError := (case lastError of Some e \<Rightarrow> Some e | None \<Rightarrow> m_LastError row),
         m_SentAt := (if status = MessageStatusSent then Some (NowFunc db) else m_SentAt row),
         m_Attempts := (if status = MessageStatusFailed then m_Attempts row + 1 else m_Attempts row),
         m_UpdatedAt := now\<rparr>"
  by (cases lastError) (simp_all add: assign_columns_def status_updates_at Let_def)

lemma UpdateContactMessageStatus_rows:
  "contact_messages (snd (repository_UpdateContactMessageStatus id64 status lastError db)) =
     (if db_Error db = None then
        map (\<lambda>row. if m_ID row = id64
                   then assign_columns (NowFunc db) (status_updates db status lastError) row
                   else row)
          (contact_messages db)
      else contact_messages db)"
proof (cases "db_Error db")
  case None
  then show ?thesis
    by (simp add: repository_UpdateContactMessageStatus_def Where_id_Updates_def Let_def
        split: option.splits)
next
  case (Some e)
  then show ?thesis
    by (simp add: repository_UpdateContactMessageStatus_def Where_id_Updates_def Let_def
        checkRowsAffected_def)
qed

text \<open>
  C8. In every call of UpdateContactMessageStatus the column \<^verbatim>\<open>attempts\<close> is among the
  updates, as \<^verbatim>\<open>attempts + 1\<close>, exactly when the new status is \<^verbatim>\<open>failed\<close>, and the
  column \<^verbatim>\<open>sent_at\<close> is among them exactly when the new status is \<^verbatim>\<open>sent\<close>; no status
  puts both there. On the rows with the identifier the statement therefore adds one to
  the attempts for \<^verbatim>\<open>failed\<close> and leaves them alone otherwise, and sets the sent time
  to now for \<^verbatim>\<open>sent\<close> and leaves it alone otherwise.
\<close>

theorem status_update_counts_failures_and_stamps_sends:
  "(''attempts'' \<in> dom (status_updates db status lastError)) = (status = MessageStatusFailed) \<and>
   (''sent_at'' \<in> dom (status_updates db status lastError)) = (status = MessageStatusSent) \<and>
   \<not> (''attempts'' \<in> dom (status_updates db status lastError) \<and>
      ''sent_at'' \<in> dom (status_updates db status lastError)) \<and>
   contact_messages (snd (repository_UpdateContactMessageStatus id64 status lastError db)) =
     (if db_Error db = None then
        map (\<lambda>row. if m_ID row = id64 then
                     row\<lparr>m_Status := status,
                         m_LastError := (case lastError of Some e \<Rightarrow> Some e | None \<Rightarrow> m_LastError row),
                         m_SentAt := (if status = MessageStatusSent then Some (NowFunc db)
                                      else m_SentAt row),
                         m_Attempts := (if status = MessageStatusFailed then m_Attempts row + 1
                                        else m_Attempts row),
                         m_UpdatedAt := NowFunc db\<rparr>
                   else row)
          (contact_messages db)
      else contact_messages db)"
proof -
  have 1: "(''attempts'' \<in> dom (status_updates db status lastError)) = (status = MessageStatusFailed)"
    by (simp add: dom_def status_updates_attempts)
  have 2: "(''sent_at'' \<in> dom (status_updates db status lastError)) = (status = MessageStatusSent)"
    by (simp add: dom_def status_updates_sent_at)
  have 3: "\<not> (status = MessageStatusFailed \<and> status = MessageStatusSent)"
    by (auto simp: MessageStatusFailed_def MessageStatusSent_def)
  show ?thesis
    unfolding 1 2 UpdateContactMessageStatus_rows assign_status_updates using 3 by simp
qed

lemma set_insert_row: "set (insert_row le x ys) = insert x (set ys)"
  by (induction ys) auto

lemma mset_insert_row: "mset (insert_row le x ys) = add_mset x (mset ys)"
  by (induction ys) auto

lemma mset_order_rows: "mset (order_rows le xs) = mset xs"
  by (induction xs) (auto simp: mset_insert_row)

lemma sorted_insert_row:
  assumes total: "\<And>a b. le a b \<or> le b a" and trans: "\<And>a b c. le a b \<Longrightarrow> le b c \<Longrightarrow> le a c"
    and "sorted_wrt le ys"
  shows "sorted_wrt le (insert_row le x ys)"
  using assms(3)
proof (induction ys)
  case Nil
  show ?case by simp
next
  case (Cons y ys)
  show ?case
  proof (cases "le x y")
    case True
    with Cons.prems trans have "\<forall>z\<in>set (y # ys). le x z"
      by auto
    with True Cons.prems show ?thesis
      by simp
  next
    case False
    with total have "le y x"
      by blast
    with False Cons show ?thesis
      by (auto simp: set_insert_row)
  qed
qed

lemma sorted_order_rows:
  assumes "\<And>a b. le a b \<or> le b a" and "\<And>a b c. le a b \<Longrightarrow> le b c \<Longrightarrow> le a c"
  shows "sorted_wrt le (order_rows le xs)"
proof (induction xs)
  case Nil
  show ?case by simp
next
  case (Cons x xs)
  then show ?case
    using sorted_insert_row [of le "order_rows le xs" x] assms by auto
qed

text \<open>
  C10. The list that GetAllRecipients returns holds every recipient of the table, each
  as often as the table has it, in ascending order of name under the collation of the
  database (for a collation that is total and transitive); the handler GetRecipients
  answers 200 with that list, in that order.
\<close>

theorem recipients_listed_by_name:
  assumes total: "\<forall>a b. collate db a b \<or> collate db b a"
    and trans: "\<forall>a b c. collate db a b \<and> collate db b c \<longrightarrow> collate db a c"
    and found: "repository_GetAllRecipients db = Inr rs"
    and listing: "repo_GetAllRecipients (repo h) s = (repository_GetAllRecipients db, s1)"
  shows "mset rs = mset (recipients db) \<and>
         sorted_wrt (\<lambda>a b. collate db (r_Name a) (r_Name b)) rs \<and>
         Handler_GetRecipients h s = (JSON StatusOK (JSON_Recipients rs), [Repo_GetAllRecipients], s1)"
proof -
  let ?le = "\<lambda>a b. collate db (r_Name a) (r_Name b)"
  from found have rs: "rs = order_rows ?le (recipients db)"
    by (auto simp: repository_GetAllRecipients_def Order_def split: option.splits)
  have "sorted_wrt ?le (order_rows ?le (recipients db))"
  proof (rule sorted_order_rows)
    show "?le a b \<or> ?le b a" for a b :: Recipient
      using total by blast
    show "?le a b \<Longrightarrow> ?le b c \<Longrightarrow> ?le a c" for a b c :: Recipient
      using trans by blast
  qed
  moreover have "mset (order_rows ?le (recipients db)) = mset (recipients db)"
    by (rule mset_order_rows)
  moreover have "Handler_GetRecipients h s = (JSON StatusOK (JSON_Recipients rs), [Repo_GetAllRecipients], s1)"
    using listing found by (simp add: Handler_GetRecipients_def)
  ultimately show ?thesis
    by (simp add: rs)
qed

lemma listing_test_db:
  "repository_GetAllRecipients test_db =
     Inr [createTestRecipient,
          \<lparr>r_ID = 2, r_Email = ''support@example.com'', r_Name = ''Support Team'', r_IsActive = True,
           r_CreatedAt = 1700000000, r_UpdatedAt = 1700000000\<rparr>]"
  by (simp add: repository_GetAllRecipients_def test_db_def Order_def createTestRecipient_def)

theorem recipients_listed_by_name_witness:
  "repository_GetAllRecipients test_db =
     Inr [createTestRecipient,
          \<lparr>r_ID = 2, r_Email = ''support@example.com'', r_Name = ''Support Team'', r_IsActive = True,
           r_CreatedAt = 1700000000, r_UpdatedAt = 1700000000\<rparr>] \<and>
   Handler_GetRecipients mockHandler_over_db nothing_captured =
     (JSON StatusOK (JSON_Recipients
        [createTestRecipient,
         \<lparr>r_ID = 2, r_Email = ''support@example.com'', r_Name = ''Support Team'', r_IsActive = True,
          r_CreatedAt = 1700000000, r_UpdatedAt = 1700000000\<rparr>]),
      [Repo_GetAllRecipients], nothing_captured)"
proof -
  have 1: "\<forall>a b. collate test_db a b \<or> collate test_db b a"
    by (auto simp: test_db_def)
  have 2: "\<forall>a b c. collate test_db a b \<and> collate test_db b c \<longrightarrow> collate test_db a c"
    by (auto simp: test_db_def)
  have 4: "repo_GetAllRecipients (repo mockHandler_over_db) nothing_captured
             = (repository_GetAllRecipients test_db, nothing_captured)"
    by (simp add: mockHandler_over_db_def)
  show ?thesis
    using recipients_listed_by_name [OF 1 2 listing_test_db 4] listing_test_db
    by simp
qed

end
